theory Spec2Isabelle
  imports Main
begin

section \<open>Values and the platform\<close>

text \<open>
  The service (src/new.js, and its transactional variant src/try.js) is an Express
  application: each route validates the request with a Joi schema and then makes one
  Mongoose call. A request body is a parsed JSON object: its keys, each once, in
  their order. Numbers are modelled as integers and strings as ASCII character lists.
\<close>

datatype json = JNull | JBool bool | JNum int | JStr string
  | JArr "json list" | JObj "(string \<times> json) list"

type_synonym payload = "(string \<times> json) list"

text \<open>
  What the handlers take from the JavaScript platform and the libraries, and never
  define themselves: how a path segment casts to an ObjectId, how a numeric string
  converts to a number, which values \<open>Joi.date()\<close> accepts, how Mongoose casts a
  value to a Date, and what \<open>new Date(s)\<close> gives for a string (\<open>None\<close> is
  the Invalid Date). Every theorem below holds for each such platform.
\<close>

record platform =
  castObjectId :: "string \<Rightarrow> nat option"
  numberOfString :: "string \<Rightarrow> int option"
  joiDate :: "json \<Rightarrow> bool"
  castDate :: "json \<Rightarrow> int option"
  newDate :: "string \<Rightarrow> int option"

section \<open>Joi schemas\<close>

datatype error_type = any_required | any_only | string_base | string_empty
  | string_min | string_max | date_base | number_base | number_unsafe
  | object_unknown | object_missing

datatype detail = Detail (path: string) (kind: error_type) (message: string)

datatype base_type = string_type | date_type | number_type

record field_schema =
  f_base :: base_type
  f_required :: bool
  f_min :: "nat option"
  f_max :: "nat option"
  f_valid :: "string list option"
  f_default :: "string option"
  f_messages :: "(error_type \<times> string) list"

record object_schema =
  obj_keys :: "(string \<times> field_schema) list"
  obj_or :: "string list list"

definition Joi_any :: "base_type \<Rightarrow> field_schema" where
  "Joi_any b = \<lparr>f_base = b, f_required = False, f_min = None, f_max = None,
     f_valid = None, f_default = None, f_messages = []\<rparr>"

definition Joi_string :: field_schema where
  "Joi_string = Joi_any string_type"

definition Joi_date :: field_schema where
  "Joi_date = Joi_any date_type"

definition Joi_number :: field_schema where
  "Joi_number = Joi_any number_type"

definition required :: "field_schema \<Rightarrow> field_schema" where
  "required f = f\<lparr>f_required := True\<rparr>"

definition optional :: "field_schema \<Rightarrow> field_schema" where
  "optional f = f\<lparr>f_required := False\<rparr>"

definition min_len :: "nat \<Rightarrow> field_schema \<Rightarrow> field_schema" where
  "min_len n f = f\<lparr>f_min := Some n\<rparr>"

definition max_len :: "nat \<Rightarrow> field_schema \<Rightarrow> field_schema" where
  "max_len n f = f\<lparr>f_max := Some n\<rparr>"

definition valid :: "string list \<Rightarrow> field_schema \<Rightarrow> field_schema" where
  "valid vs f = f\<lparr>f_valid := Some vs\<rparr>"

definition default_to :: "string \<Rightarrow> field_schema \<Rightarrow> field_schema" where
  "default_to d f = f\<lparr>f_default := Some d\<rparr>"

definition messages :: "(error_type \<times> string) list \<Rightarrow> field_schema \<Rightarrow> field_schema" where
  "messages ms f = f\<lparr>f_messages := ms @ f_messages f\<rparr>"

definition Joi_object :: "(string \<times> field_schema) list \<Rightarrow> object_schema" where
  "Joi_object ks = \<lparr>obj_keys = ks, obj_or = []\<rparr>"

definition or_peers :: "string list \<Rightarrow> object_schema \<Rightarrow> object_schema" where
  "or_peers ps s = s\<lparr>obj_or := obj_or s @ [ps]\<rparr>"

definition concat_schema :: "object_schema \<Rightarrow> object_schema \<Rightarrow> object_schema" where
  "concat_schema a b = \<lparr>obj_keys = obj_keys a @ obj_keys b, obj_or = obj_or a @ obj_or b\<rparr>"

text \<open>The schemas of src/new.js, lines 27 to 43.\<close>

definition eventValidationSchema :: object_schema where
  "eventValidationSchema = Joi_object
     [(''title'', messages [(string_empty, ''Title is required'')] (required Joi_string)),
      (''description'',
         messages [(string_max, ''Description cannot exceed 500 characters'')]
           (max_len 500 Joi_string)),
      (''location'', messages [(string_empty, ''Location is required'')] (required Joi_string)),
      (''date'', messages [(date_base, ''Date is invalid or missing'')] (required Joi_date)),
      (''status'',
         default_to ''active'' (valid [''active'', ''cancelled'', ''done''] Joi_string))]"

definition updateEventValidationSchema :: object_schema where
  "updateEventValidationSchema = concat_schema eventValidationSchema
     (Joi_object
        [(''__v'', messages [(number_base, ''Version is required'')] (required Joi_number))])"

definition queryValidationSchema :: object_schema where
  "queryValidationSchema = or_peers [''location'', ''date'', ''status'']
     (Joi_object
        [(''location'', max_len 50 (min_len 3 (optional Joi_string))),
         (''date'', optional Joi_date),
         (''status'', valid [''active'', ''cancelled'', ''done''] (optional Joi_string))])"

section \<open>Joi validation with abortEarly: false\<close>

fun digit_char :: "nat \<Rightarrow> char" where
  "digit_char n = char_of (48 + n)"

fun show_nat :: "nat \<Rightarrow> string" where
  "show_nat n = (if n < 10 then [digit_char n] else show_nat (n div 10) @ [digit_char (n mod 10)])"

fun join :: "string \<Rightarrow> string list \<Rightarrow> string" where
  "join sep [] = []"
| "join sep [x] = x"
| "join sep (x # y # ys) = x @ sep @ join sep (y # ys)"

definition label :: "string \<Rightarrow> string" where
  "label k = [CHR 0x22] @ k @ [CHR 0x22]"

text \<open>Joi's default message templates, for the error types these schemas can raise.\<close>

fun template :: "error_type \<Rightarrow> string \<Rightarrow> string \<Rightarrow> string" where
  "template any_required l c = l @ '' is required''"
| "template any_only l c = l @ '' must be one of ['' @ c @ '']''"
| "template string_base l c = l @ '' must be a string''"
| "template string_empty l c = l @ '' is not allowed to be empty''"
| "template string_min l c = l @ '' length must be at least '' @ c @ '' characters long''"
| "template string_max l c =
     l @ '' length must be less than or equal to '' @ c @ '' characters long''"
| "template date_base l c = l @ '' must be a valid date''"
| "template number_base l c = l @ '' must be a number''"
| "template number_unsafe l c = l @ '' must be a safe number''"
| "template object_unknown l c = l @ '' is not allowed''"
| "template object_missing l c = l @ '' must contain at least one of ['' @ c @ '']''"

definition report :: "string \<Rightarrow> field_schema \<Rightarrow> error_type \<Rightarrow> string \<Rightarrow> detail" where
  "report k f t c =
     Detail k t (case map_of (f_messages f) t of
                   Some m \<Rightarrow> m
                 | None \<Rightarrow> template t (label k) c)"

definition safe_number :: "int \<Rightarrow> bool" where
  "safe_number n = (- 9007199254740991 \<le> n \<and> n \<le> 9007199254740991)"

fun to_number :: "platform \<Rightarrow> json \<Rightarrow> int option" where
  "to_number P (JNum n) = Some n"
| "to_number P (JStr s) = numberOfString P s"
| "to_number P v = None"

definition blank :: "string \<Rightarrow> bool" where
  "blank s = list_all (\<lambda>c. c \<in> set [CHR '' '', CHR 0x09, CHR 0x0A, CHR 0x0B, CHR 0x0C, CHR 0x0D]) s"

fun joi_date :: "platform \<Rightarrow> json \<Rightarrow> bool" where
  "joi_date P (JStr s) = (\<not> blank s \<and> joiDate P (JStr s))"
| "joi_date P v = joiDate P v"

text \<open>
  The base check of a type: a failure here ends the checks of the field. A string
  must be a string and not empty; a date is what \<open>Joi.date()\<close> converts (never a
  blank string); a number is a number or a numeric string, within the safe range.
\<close>

fun base_errors :: "platform \<Rightarrow> string \<Rightarrow> field_schema \<Rightarrow> json \<Rightarrow> detail list" where
  "base_errors P k f v =
     (case f_base f of
        string_type \<Rightarrow>
          (case v of
             JStr s \<Rightarrow>
               if s = [] \<and> f_min f \<noteq> Some 0 then [report k f string_empty []] else []
           | _ \<Rightarrow> [report k f string_base []])
      | date_type \<Rightarrow> if joi_date P v then [] else [report k f date_base []]
      | number_type \<Rightarrow>
          (case to_number P v of
             None \<Rightarrow> [report k f number_base []]
           | Some n \<Rightarrow> if safe_number n then [] else [report k f number_unsafe []]))"

text \<open>The rules added to a type, each checked in turn: \<open>min\<close> and \<open>max\<close> of a string.\<close>

fun rule_errors :: "string \<Rightarrow> field_schema \<Rightarrow> json \<Rightarrow> detail list" where
  "rule_errors k f (JStr s) =
     (case f_min f of
        None \<Rightarrow> []
      | Some m \<Rightarrow> if length s < m then [report k f string_min (show_nat m)] else [])
     @ (case f_max f of
          None \<Rightarrow> []
        | Some m \<Rightarrow> if m < length s then [report k f string_max (show_nat m)] else [])"
| "rule_errors k f v = []"

definition allowed :: "field_schema \<Rightarrow> json \<Rightarrow> bool" where
  "allowed f v = (case f_valid f of None \<Rightarrow> False | Some vs \<Rightarrow> v \<in> set (map JStr vs))"

definition only_errors :: "string \<Rightarrow> field_schema \<Rightarrow> detail list" where
  "only_errors k f =
     (case f_valid f of None \<Rightarrow> [] | Some vs \<Rightarrow> [report k f any_only (join '', '' vs)])"

text \<open>
  One key of the object: an absent key fails only when required; a value in the
  \<open>valid\<close> list passes at once; otherwise the value is reported as not allowed (when
  there is such a list) and the type's checks still run.
\<close>

definition check_field :: "platform \<Rightarrow> string \<Rightarrow> field_schema \<Rightarrow> json option \<Rightarrow> detail list" where
  "check_field P k f item =
     (case item of
        None \<Rightarrow> if f_required f then [report k f any_required []] else []
      | Some v \<Rightarrow>
          if allowed f v then []
          else only_errors k f
               @ (case base_errors P k f v of [] \<Rightarrow> rule_errors k f v | e # es \<Rightarrow> e # es))"

definition unknown_errors :: "object_schema \<Rightarrow> payload \<Rightarrow> detail list" where
  "unknown_errors s obj =
     map (\<lambda>k. Detail k object_unknown (template object_unknown (label k) []))
       (filter (\<lambda>k. k \<notin> set (map fst (obj_keys s))) (map fst obj))"

definition present :: "payload \<Rightarrow> string \<Rightarrow> bool" where
  "present obj k = (map_of obj k \<noteq> None)"

definition dependency_errors :: "object_schema \<Rightarrow> payload \<Rightarrow> detail list" where
  "dependency_errors s obj =
     concat (map (\<lambda>peers.
         if list_ex (present obj) peers then []
         else [Detail [] object_missing
                 (template object_missing (label ''value'') (join '', '' peers))])
       (obj_or s))"

text \<open>
  \<open>schema.validate(value, { abortEarly: false })\<close> on an object: the errors of every
  declared key in the schema's order, then one error for each key the schema does not
  declare, then the \<open>or\<close> constraints. The list is empty when the value is valid.
\<close>

definition validate :: "platform \<Rightarrow> object_schema \<Rightarrow> payload \<Rightarrow> detail list" where
  "validate P s obj =
     concat (map (\<lambda>(k, f). check_field P k f (map_of obj k)) (obj_keys s))
     @ unknown_errors s obj
     @ dependency_errors s obj"

text \<open>The message of the \<open>or\<close> constraint of the query schema.\<close>

definition or_message :: string where
  "or_message = label ''value'' @ '' must contain at least one of [location, date, status]''"

section \<open>Requests and responses\<close>

text \<open>
  A stored event (\<open>EventSchema\<close>, src/new.js lines 16 to 23): \<open>oid\<close> is
  its \<open>_id\<close> and \<open>version\<close> its \<open>__v\<close>. The schema declares
  \<open>__v\<close> with \<open>select: false\<close>, so a document that a query returns
  carries the fields without the version (\<open>Selected\<close>); the document that
  \<open>save\<close> returns is the saved one, version included (\<open>Document\<close>).
\<close>

record event_fields =
  oid :: nat
  title :: string
  description :: "string option"
  location :: string
  date :: int
  status :: string

record event = event_fields +
  version :: int

datatype content = Message string | Validation string "string list"
  | Document event | Selected event_fields | SelectedList "event_fields list"

record response =
  status_code :: nat
  content :: content

text \<open>
  The two middlewares (src/new.js, lines 46 to 66): answer 400 with every message
  when the schema reports an error, and call the route's handler (\<open>None\<close> here)
  otherwise. The validated value is dropped: the request is handed on as it came.
\<close>

definition validateRequest :: "platform \<Rightarrow> object_schema \<Rightarrow> payload \<Rightarrow> response option" where
  "validateRequest P schema body =
     (case validate P schema body of
        [] \<Rightarrow> None
      | e # es \<Rightarrow>
          Some \<lparr>status_code = 400,
                content = Validation ''Validation error'' (map message (e # es))\<rparr>)"

text \<open>
  The query string of a request: each parameter with its value, a string. (A
  repeated or bracketed parameter, which the query parser turns into an array or an
  object, is not modelled; the schema rejects it.)
\<close>

type_synonym query = "(string \<times> string) list"

definition query_payload :: "query \<Rightarrow> payload" where
  "query_payload q = map (\<lambda>(k, v). (k, JStr v)) q"

definition validateQuery :: "platform \<Rightarrow> object_schema \<Rightarrow> query \<Rightarrow> response option" where
  "validateQuery P schema q =
     (case validate P schema (query_payload q) of
        [] \<Rightarrow> None
      | e # es \<Rightarrow>
          Some \<lparr>status_code = 400,
                content = Validation ''Validation error'' (map message (e # es))\<rparr>)"

section \<open>The collection and the Mongoose calls\<close>

text \<open>
  The collection holds the events in insertion order. \<open>next_oid\<close> stands for the
  ObjectId generator: each \<open>new Event\<close> takes the next identifier.
\<close>

record db =
  events :: "event list"
  next_oid :: nat

text \<open>
  Every stored identifier was issued by the generator: it is below the next one.
\<close>

definition ids_issued :: "db \<Rightarrow> bool" where
  "ids_issued d = list_all (\<lambda>e. oid e < next_oid d) (events d)"

datatype error = StorageError | CastError | ValidationError

text \<open>
  Casting a value to a schema path. The validation middleware lets only strings
  through for the string paths, so no other cast to a string is modelled.
  \<open>cast_path\<close> gives \<open>None\<close> when the cast fails, \<open>Some None\<close> when the key
  is absent and \<open>Some (Some x)\<close> for the cast value.
\<close>

fun cast_string :: "json \<Rightarrow> string option" where
  "cast_string (JStr s) = Some s"
| "cast_string v = None"

fun cast_path :: "(json \<Rightarrow> 'a option) \<Rightarrow> json option \<Rightarrow> 'a option option" where
  "cast_path c None = Some None"
| "cast_path c (Some v) = (case c v of None \<Rightarrow> None | Some x \<Rightarrow> Some (Some x))"

definition status_enum :: "string list" where
  "status_enum = [''active'', ''cancelled'', ''done'']"

text \<open>
  \<open>new Event(req.body)\<close> with the identifier \<open>i\<close>, and the document validation
  that \<open>save\<close> runs first: required title, location and date, a description of
  at most 500 characters, a status of the enumeration (default \<open>active\<close>). The
  version of a new document is 0.
\<close>

definition new_Event :: "platform \<Rightarrow> nat \<Rightarrow> payload \<Rightarrow> error + event" where
  "new_Event P i body =
     (case (cast_path cast_string (map_of body ''title''),
            cast_path cast_string (map_of body ''description''),
            cast_path cast_string (map_of body ''location''),
            cast_path (castDate P) (map_of body ''date''),
            cast_path cast_string (map_of body ''status'')) of
        (Some (Some t), Some d, Some (Some l), Some (Some dt), Some s) \<Rightarrow>
          (let st = (case s of None \<Rightarrow> ''active'' | Some x \<Rightarrow> x) in
           if t \<noteq> [] \<and> l \<noteq> [] \<and> (case d of None \<Rightarrow> True | Some x \<Rightarrow> length x \<le> 500)
              \<and> st \<in> set status_enum
           then Inr \<lparr>oid = i, title = t, description = d, location = l, date = dt,
                     status = st, version = 0\<rparr>
           else Inl ValidationError)
      | _ \<Rightarrow> Inl ValidationError)"

definition save :: "bool \<Rightarrow> db \<Rightarrow> error + event \<Rightarrow> error + db \<times> event" where
  "save fails d doc =
     (if fails then Inl StorageError
      else case doc of
             Inl err \<Rightarrow> Inl err
           | Inr e \<Rightarrow> Inr (d\<lparr>events := events d @ [e]\<rparr>, e))"

text \<open>
  The update document of \<open>findOneAndUpdate(filter, req.body)\<close>: every key of the
  body is set on the matched document, \<open>__v\<close> included; an absent key leaves its
  path as it is. Nothing here adds to the version.
\<close>

definition set_path :: "'a option \<Rightarrow> 'a \<Rightarrow> 'a" where
  "set_path new old = (case new of None \<Rightarrow> old | Some x \<Rightarrow> x)"

definition cast_update :: "platform \<Rightarrow> payload \<Rightarrow> error + (event \<Rightarrow> event)" where
  "cast_update P body =
     (case (cast_path cast_string (map_of body ''title''),
            cast_path cast_string (map_of body ''description''),
            cast_path cast_string (map_of body ''location''),
            cast_path (castDate P) (map_of body ''date''),
            cast_path cast_string (map_of body ''status''),
            cast_path (to_number P) (map_of body ''__v'')) of
        (Some t, Some d, Some l, Some dt, Some s, Some v) \<Rightarrow>
          Inr (\<lambda>e. e\<lparr>title := set_path t (title e),
                       description := (case d of None \<Rightarrow> description e | Some x \<Rightarrow> Some x),
                       location := set_path l (location e),
                       date := set_path dt (date e),
                       status := set_path s (status e),
                       version := set_path v (version e)\<rparr>)
      | _ \<Rightarrow> Inl CastError)"

text \<open>
  The filters: \<open>{ _id: id }\<close> and \<open>{ _id: id, __v: v }\<close>. An identifier or a
  version that does not cast is a CastError. (An undefined \<open>__v\<close> would match no
  stored document; the validation never lets it through.)
\<close>

definition id_filter :: "platform \<Rightarrow> string \<Rightarrow> error + (event \<Rightarrow> bool)" where
  "id_filter P rid =
     (case castObjectId P rid of
        None \<Rightarrow> Inl CastError
      | Some i \<Rightarrow> Inr (\<lambda>e. oid e = i))"

definition id_version_filter :: "platform \<Rightarrow> string \<Rightarrow> json option \<Rightarrow> error + (event \<Rightarrow> bool)" where
  "id_version_filter P rid item =
     (case castObjectId P rid of
        None \<Rightarrow> Inl CastError
      | Some i \<Rightarrow>
          (case item of
             None \<Rightarrow> Inr (\<lambda>e. False)
           | Some v \<Rightarrow>
               (case to_number P v of
                  None \<Rightarrow> Inl CastError
                | Some n \<Rightarrow> Inr (\<lambda>e. oid e = i \<and> version e = n))))"

fun update_first :: "(event \<Rightarrow> bool) \<Rightarrow> (event \<Rightarrow> event) \<Rightarrow> event list \<Rightarrow> event list" where
  "update_first p u [] = []"
| "update_first p u (e # es) = (if p e then u e # es else e # update_first p u es)"

fun remove_first :: "(event \<Rightarrow> bool) \<Rightarrow> event list \<Rightarrow> event list" where
  "remove_first p [] = []"
| "remove_first p (e # es) = (if p e then es else e # remove_first p es)"

text \<open>
  \<open>Model.findOneAndUpdate(filter, update, { new: true })\<close>: one atomic call that
  changes the first matching document and returns it as updated, or returns null
  (\<open>None\<close>) and changes nothing. \<open>fails\<close> says that the call is rejected by the
  driver (the connection is lost, say).
\<close>

definition findOneAndUpdate ::
  "bool \<Rightarrow> db \<Rightarrow> error + (event \<Rightarrow> bool) \<Rightarrow> error + (event \<Rightarrow> event) \<Rightarrow> error + db \<times> event option" where
  "findOneAndUpdate fails d flt upd =
     (if fails then Inl StorageError
      else case flt of
             Inl err \<Rightarrow> Inl err
           | Inr p \<Rightarrow>
               (case upd of
                  Inl err \<Rightarrow> Inl err
                | Inr u \<Rightarrow>
                    (case find p (events d) of
                       None \<Rightarrow> Inr (d, None)
                     | Some e \<Rightarrow> Inr (d\<lparr>events := update_first p u (events d)\<rparr>, Some (u e)))))"


definition findByIdAndDelete :: "platform \<Rightarrow> bool \<Rightarrow> db \<Rightarrow> string \<Rightarrow> error + db \<times> event option" where
  "findByIdAndDelete P fails d rid =
     (if fails then Inl StorageError
      else case id_filter P rid of
             Inl err \<Rightarrow> Inl err
           | Inr p \<Rightarrow>
               (case find p (events d) of
                  None \<Rightarrow> Inr (d, None)
                | Some e \<Rightarrow> Inr (d\<lparr>events := remove_first p (events d)\<rparr>, Some e)))"

text \<open>
  The query object of the list route and \<open>Event.find(query)\<close>. \<open>q_date\<close> is
  \<open>Some None\<close> for an Invalid Date, which does not cast.
\<close>

record find_query =
  q_location :: "string option"
  q_date :: "int option option"
  q_status :: "string option"

definition matches :: "find_query \<Rightarrow> event \<Rightarrow> bool" where
  "matches q e =
     ((case q_location q of None \<Rightarrow> True | Some s \<Rightarrow> location e = s)
      \<and> (case q_date q of None \<Rightarrow> True | Some t \<Rightarrow> Some (date e) = t)
      \<and> (case q_status q of None \<Rightarrow> True | Some s \<Rightarrow> status e = s))"

definition find_events :: "bool \<Rightarrow> db \<Rightarrow> find_query \<Rightarrow> error + event list" where
  "find_events fails d q =
     (if fails then Inl StorageError
      else if q_date q = Some None then Inl CastError
      else Inr (filter (matches q) (events d)))"

definition selected :: "event \<Rightarrow> event_fields" where
  "selected e = \<lparr>oid = oid e, title = title e, description = description e,
     location = location e, date = date e, status = status e\<rparr>"

section \<open>The routes of src/new.js\<close>

definition respond :: "nat \<Rightarrow> content \<Rightarrow> response" where
  "respond c b = \<lparr>status_code = c, content = b\<rparr>"

text \<open>POST /events (lines 71 to 80).\<close>

definition post_events :: "platform \<Rightarrow> bool \<Rightarrow> db \<Rightarrow> payload \<Rightarrow> db \<times> response" where
  "post_events P fails d body =
     (case validateRequest P eventValidationSchema body of
        Some r \<Rightarrow> (d, r)
      | None \<Rightarrow>
          (let event = new_Event P (next_oid d) body;
               d1 = d\<lparr>next_oid := Suc (next_oid d)\<rparr>
           in case save fails d1 event of
                Inr (d2, savedEvent) \<Rightarrow> (d2, respond 201 (Document savedEvent))
              | Inl err \<Rightarrow> (d1, respond 500 (Message ''Error saving event''))))"

text \<open>
  GET /events (lines 83 to 98). A query parameter enters the query object when it is
  truthy, that is, a non-empty string; the date goes through \<open>new Date\<close>.
\<close>

definition truthy :: "string option \<Rightarrow> bool" where
  "truthy x = (case x of None \<Rightarrow> False | Some s \<Rightarrow> s \<noteq> [])"

definition build_query :: "platform \<Rightarrow> query \<Rightarrow> find_query" where
  "build_query P q =
     (let location = map_of q ''location'';
          date = map_of q ''date'';
          status = map_of q ''status''
      in \<lparr>q_location = (if truthy location then location else None),
          q_date = (if truthy date then map_option (newDate P) date else None),
          q_status = (if truthy status then status else None)\<rparr>)"

definition get_events :: "platform \<Rightarrow> bool \<Rightarrow> db \<Rightarrow> query \<Rightarrow> db \<times> response" where
  "get_events P fails d q =
     (case validateQuery P queryValidationSchema q of
        Some r \<Rightarrow> (d, r)
      | None \<Rightarrow>
          (case find_events fails d (build_query P q) of
             Inr found \<Rightarrow> (d, respond 200 (SelectedList (map selected found)))
           | Inl err \<Rightarrow> (d, respond 500 (Message ''Error fetching events''))))"

text \<open>
  The specification's reading of a filtered list: an event is listed when it agrees
  with every parameter that the query gives, the date being the one that
  \<open>new Date\<close> makes of the parameter.
\<close>

definition matches_given :: "platform \<Rightarrow> query \<Rightarrow> event \<Rightarrow> bool" where
  "matches_given P q e =
     ((case map_of q ''location'' of None \<Rightarrow> True | Some s \<Rightarrow> location e = s)
      \<and> (case map_of q ''date'' of None \<Rightarrow> True | Some s \<Rightarrow> newDate P s = Some (date e))
      \<and> (case map_of q ''status'' of None \<Rightarrow> True | Some s \<Rightarrow> status e = s))"

text \<open>PUT /events/:id (lines 101 to 118).\<close>

definition conflict_message :: string where
  "conflict_message = ''Event has been updated by another user. Please refresh.''"

definition put_events_id :: "platform \<Rightarrow> bool \<Rightarrow> db \<Rightarrow> string \<Rightarrow> payload \<Rightarrow> db \<times> response" where
  "put_events_id P fails d rid body =
     (case validateRequest P updateEventValidationSchema body of
        Some r \<Rightarrow> (d, r)
      | None \<Rightarrow>
          (case findOneAndUpdate fails d
                  (id_version_filter P rid (map_of body ''__v'')) (cast_update P body) of
             Inr (d1, None) \<Rightarrow> (d1, respond 409 (Message conflict_message))
           | Inr (d1, Some event) \<Rightarrow> (d1, respond 200 (Selected (selected event)))
           | Inl err \<Rightarrow> (d, respond 500 (Message ''Error updating event''))))"

text \<open>DELETE /events/:id (lines 121 to 134).\<close>

definition delete_events_id :: "platform \<Rightarrow> bool \<Rightarrow> db \<Rightarrow> string \<Rightarrow> db \<times> response" where
  "delete_events_id P fails d rid =
     (case findByIdAndDelete P fails d rid of
        Inr (d1, None) \<Rightarrow> (d1, respond 404 (Message ''Event not found''))
      | Inr (d1, Some deletedEvent) \<Rightarrow> (d1, respond 200 (Message ''Event deleted successfully''))
      | Inl err \<Rightarrow> (d, respond 500 (Message ''Error deleting event'')))"

text \<open>
  The router: a request is handed to the route of its method and path. A run serves
  the requests one after the other, each with its own word on whether the store
  fails during it.
\<close>

datatype request = POST_events payload | GET_events query
  | PUT_events_id string payload | DELETE_events_id string

fun route :: "platform \<Rightarrow> bool \<Rightarrow> db \<Rightarrow> request \<Rightarrow> db \<times> response" where
  "route P fails d (POST_events body) = post_events P fails d body"
| "route P fails d (GET_events q) = get_events P fails d q"
| "route P fails d (PUT_events_id rid body) = put_events_id P fails d rid body"
| "route P fails d (DELETE_events_id rid) = delete_events_id P fails d rid"

fun run :: "platform \<Rightarrow> db \<Rightarrow> (bool \<times> request) list \<Rightarrow> db" where
  "run P d [] = d"
| "run P d ((fails, r) # rs) = run P (fst (route P fails d r)) rs"

section \<open>The update route of src/try.js\<close>


section \<open>A platform and requests to evaluate the routes on\<close>

text \<open>
  A small platform for concrete runs: an ObjectId is a string of 24 hexadecimal
  digits, a numeric string is a string of decimal digits, and the one date string
  it knows is 2024-12-12 (midnight UTC, in milliseconds).
\<close>

definition hex_value :: "char \<Rightarrow> nat option" where
  "hex_value c =
     (let n = of_char c :: nat in
      if 48 \<le> n \<and> n \<le> 57 then Some (n - 48)
      else if 97 \<le> n \<and> n \<le> 102 then Some (n - 87)
      else if 65 \<le> n \<and> n \<le> 70 then Some (n - 55)
      else None)"

fun read_digits :: "nat \<Rightarrow> nat \<Rightarrow> string \<Rightarrow> nat option" where
  "read_digits b acc [] = Some acc"
| "read_digits b acc (c # cs) =
     (case hex_value c of
        None \<Rightarrow> None
      | Some n \<Rightarrow> if n < b then read_digits b (acc * b + n) cs else None)"

definition sample_date :: "string \<Rightarrow> int option" where
  "sample_date s = (if s = ''2024-12-12'' then Some 1733961600000 else None)"

definition sample_platform :: platform where
  "sample_platform =
     \<lparr>castObjectId = (\<lambda>s. if length s = 24 then read_digits 16 0 s else None),
      numberOfString = (\<lambda>s. if s = [] then None else map_option int (read_digits 10 0 s)),
      joiDate = (\<lambda>v. case v of JStr s \<Rightarrow> sample_date s \<noteq> None | _ \<Rightarrow> False),
      castDate = (\<lambda>v. case v of JStr s \<Rightarrow> sample_date s | _ \<Rightarrow> None),
      newDate = sample_date\<rparr>"

definition sample_id :: string where
  "sample_id = ''000000000000000000000001''"

definition sample_event :: event where
  "sample_event = \<lparr>oid = 1, title = ''Event 1'', description = None, location = ''Hall'',
     date = 1733961600000, status = ''active'', version = 0\<rparr>"

definition sample_db :: db where
  "sample_db = \<lparr>events = [sample_event], next_oid = 2\<rparr>"

definition empty_db :: db where
  "empty_db = \<lparr>events = [], next_oid = 0\<rparr>"

definition create_body :: payload where
  "create_body = [(''title'', JStr ''Event 1''), (''location'', JStr ''Hall''),
     (''date'', JStr ''2024-12-12'')]"

definition update_body :: "int \<Rightarrow> payload" where
  "update_body v = [(''title'', JStr ''Updated''), (''location'', JStr ''Hall''),
     (''date'', JStr ''2024-12-12''), (''__v'', JNum v)]"



definition other_event :: event where
  "other_event = \<lparr>oid = 2, title = ''Event 2'', description = Some ''Second'',
     location = ''Room'', date = 1733961600000, status = ''done'', version = 0\<rparr>"

definition list_db :: db where
  "list_db = \<lparr>events = [sample_event, other_event], next_oid = 3\<rparr>"

definition hall_query :: query where
  "hall_query = [(''location'', ''Hall''), (''date'', ''2024-12-12'')]"

text \<open>
  A second platform, for dates written as strings of digits. \<open>Joi.date()\<close> reads
  a string of digits as a timestamp and accepts it. Mongoose's date cast reads such a
  string as a timestamp only from 275761 on, and hands a smaller one to
  \<open>new Date\<close> as the string it is; \<open>new Date\<close> of the string 13 is the
  Invalid Date. Everything else is as in the sample platform.
\<close>

definition digits_value :: "string \<Rightarrow> nat option" where
  "digits_value s = (if s = [] then None else read_digits 10 0 s)"

definition joi_date_string :: "(string \<Rightarrow> int option) \<Rightarrow> string \<Rightarrow> bool" where
  "joi_date_string new_date s =
     (case digits_value s of
        Some n \<Rightarrow> True
      | None \<Rightarrow> new_date s \<noteq> None)"

definition mongoose_date_string :: "(string \<Rightarrow> int option) \<Rightarrow> string \<Rightarrow> int option" where
  "mongoose_date_string new_date s =
     (case digits_value s of
        Some n \<Rightarrow> if 275761 \<le> n then Some (int n) else new_date s
      | None \<Rightarrow> new_date s)"

definition digits_platform :: platform where
  "digits_platform =
     \<lparr>castObjectId = castObjectId sample_platform,
      numberOfString = numberOfString sample_platform,
      joiDate = (\<lambda>v. case v of JStr s \<Rightarrow> joi_date_string sample_date s | _ \<Rightarrow> False),
      castDate = (\<lambda>v. case v of JStr s \<Rightarrow> mongoose_date_string sample_date s | _ \<Rightarrow> None),
      newDate = sample_date\<rparr>"

definition digits_date_body :: payload where
  "digits_date_body = [(''title'', JStr ''Event 1''), (''location'', JStr ''Hall''),
     (''date'', JStr ''13'')]"

section \<open>Validation: every error is reported\<close>

lemma validateRequest_eq:
  "validateRequest P s body =
     (if validate P s body = [] then None
      else Some (respond 400 (Validation ''Validation error'' (map message (validate P s body)))))"
  by (simp add: validateRequest_def respond_def split: list.splits)

lemma validateQuery_eq:
  "validateQuery P s q =
     (if validate P s (query_payload q) = [] then None
      else Some (respond 400
             (Validation ''Validation error'' (map message (validate P s (query_payload q))))))"
  by (simp add: validateQuery_def respond_def split: list.splits)

lemma unknown_key_reported:
  assumes "k \<in> set (map fst obj)" and "k \<notin> set (map fst (obj_keys s))"
  shows "Detail k object_unknown (template object_unknown (label k) []) \<in> set (validate P s obj)"
  using assms by (auto simp: validate_def unknown_errors_def)

lemma event_schema_keys:
  "map fst (obj_keys eventValidationSchema) =
     [''title'', ''description'', ''location'', ''date'', ''status'']"
  by (simp add: eventValidationSchema_def Joi_object_def)

lemma update_schema_keys:
  "map fst (obj_keys updateEventValidationSchema) =
     [''title'', ''description'', ''location'', ''date'', ''status'', ''__v'']"
  by (simp add: updateEventValidationSchema_def concat_schema_def event_schema_keys Joi_object_def)

lemma query_schema_keys:
  "map fst (obj_keys queryValidationSchema) = [''location'', ''date'', ''status'']"
  by (simp add: queryValidationSchema_def or_peers_def Joi_object_def)

lemma message_reported:
  "e \<in> set (validate P s body) \<Longrightarrow>
     validate P s body \<noteq> [] \<and> message e \<in> set (map message (validate P s body))"
  by auto

lemma unknown_key_400:
  assumes "k \<in> set (map fst body)" and "k \<notin> set (map fst (obj_keys s))"
  shows "validateRequest P s body
           = Some (respond 400 (Validation ''Validation error'' (map message (validate P s body))))
         \<and> label k @ '' is not allowed'' \<in> set (map message (validate P s body))"
proof -
  let ?e = "Detail k object_unknown (template object_unknown (label k) [])"
  have "?e \<in> set (validate P s body)"
    using assms by (rule unknown_key_reported)
  from message_reported [OF this] show ?thesis
    by (simp add: validateRequest_eq)
qed

text \<open>
  C9. A create or update request whose body has a key that the route's schema does
  not declare (title, description, location, date, status, and \<open>__v\<close> for the
  update) is answered 400 by the validation middleware, with the message that the key
  is not allowed among the details. The collection and the identifier generator are
  as before and the answer is the same whether or not the store would fail: no
  repository call is made.
\<close>

theorem unknown_key_rejected:
  "(k \<in> set (map fst body)
      \<and> k \<notin> set [''title'', ''description'', ''location'', ''date'', ''status'']
    \<longrightarrow> post_events P fails d body
          = (d, respond 400 (Validation ''Validation error''
                  (map message (validate P eventValidationSchema body))))
        \<and> label k @ '' is not allowed''
            \<in> set (map message (validate P eventValidationSchema body)))
   \<and> (k \<in> set (map fst body)
      \<and> k \<notin> set [''title'', ''description'', ''location'', ''date'', ''status'', ''__v'']
    \<longrightarrow> put_events_id P fails d rid body
          = (d, respond 400 (Validation ''Validation error''
                  (map message (validate P updateEventValidationSchema body))))
        \<and> label k @ '' is not allowed''
            \<in> set (map message (validate P updateEventValidationSchema body)))"
proof (rule conjI; rule impI)
  assume a: "k \<in> set (map fst body)
      \<and> k \<notin> set [''title'', ''description'', ''location'', ''date'', ''status'']"
  then have "k \<in> set (map fst body)" and "k \<notin> set (map fst (obj_keys eventValidationSchema))"
    by (simp_all add: event_schema_keys)
  from unknown_key_400 [OF this, of P]
  show "post_events P fails d body
          = (d, respond 400 (Validation ''Validation error''
                  (map message (validate P eventValidationSchema body))))
        \<and> label k @ '' is not allowed''
            \<in> set (map message (validate P eventValidationSchema body))"
    by (simp add: post_events_def)
next
  assume a: "k \<in> set (map fst body)
      \<and> k \<notin> set [''title'', ''description'', ''location'', ''date'', ''status'', ''__v'']"
  then have "k \<in> set (map fst body)"
    and "k \<notin> set (map fst (obj_keys updateEventValidationSchema))"
    by (simp_all add: update_schema_keys)
  from unknown_key_400 [OF this, of P]
  show "put_events_id P fails d rid body
          = (d, respond 400 (Validation ''Validation error''
                  (map message (validate P updateEventValidationSchema body))))
        \<and> label k @ '' is not allowed''
            \<in> set (map message (validate P updateEventValidationSchema body))"
    by (simp add: put_events_id_def)
qed

theorem unknown_key_rejected_witness:
  "post_events sample_platform False sample_db ((''_id'', JStr sample_id) # create_body)
     = (sample_db, respond 400 (Validation ''Validation error''
          [label ''_id'' @ '' is not allowed'']))
   \<and> put_events_id sample_platform False sample_db sample_id
        ((''_id'', JStr sample_id) # update_body 0)
     = (sample_db, respond 400 (Validation ''Validation error''
          [label ''_id'' @ '' is not allowed'']))"
proof -
  have v1: "validate sample_platform eventValidationSchema
              ((''_id'', JStr sample_id) # create_body)
     = [Detail ''_id'' object_unknown (label ''_id'' @ '' is not allowed'')]"
    by code_simp
  have v2: "validate sample_platform updateEventValidationSchema
              ((''_id'', JStr sample_id) # update_body 0)
     = [Detail ''_id'' object_unknown (label ''_id'' @ '' is not allowed'')]"
    by code_simp
  from unknown_key_rejected [where k = "''_id''"
      and body = "(''_id'', JStr sample_id) # create_body"
      and P = sample_platform and fails = False and d = sample_db]
  have a: "post_events sample_platform False sample_db ((''_id'', JStr sample_id) # create_body)
     = (sample_db, respond 400 (Validation ''Validation error''
          [label ''_id'' @ '' is not allowed'']))"
    by (simp add: v1)
  from unknown_key_rejected [where k = "''_id''"
      and body = "(''_id'', JStr sample_id) # update_body 0"
      and P = sample_platform and fails = False and d = sample_db and rid = sample_id]
  have b: "put_events_id sample_platform False sample_db sample_id
             ((''_id'', JStr sample_id) # update_body 0)
     = (sample_db, respond 400 (Validation ''Validation error''
          [label ''_id'' @ '' is not allowed'']))"
    by (simp add: v2)
  from a b show ?thesis by simp
qed

lemma field_errors_reported:
  "(k, f) \<in> set (obj_keys s) \<Longrightarrow>
     set (check_field P k f (map_of obj k)) \<subseteq> set (validate P s obj)"
  by (force simp: validate_def)






section \<open>The or constraint of the list route\<close>

lemma map_of_query_payload:
  "map_of (query_payload q) k = map_option JStr (map_of q k)"
  by (simp add: query_payload_def map_of_map)

lemma present_query_payload:
  "present (query_payload q) k = (map_of q k \<noteq> None)"
  by (simp add: present_def map_of_query_payload)

lemma query_dependency_errors:
  "dependency_errors queryValidationSchema obj =
     (if present obj ''location'' \<or> present obj ''date'' \<or> present obj ''status'' then []
      else [Detail [] object_missing or_message])"
  by (simp add: dependency_errors_def queryValidationSchema_def or_peers_def Joi_object_def
      or_message_def)

text \<open>
  C6. A list request in which none of location, date and status is present fails the
  query validation: the answer is 400, with the message of the \<open>or\<close> constraint
  among the details, and the collection is not read. A query in which at least one of
  the three is present passes the \<open>or\<close> constraint.
\<close>

theorem or_constraint_enforced:
  "(map_of q ''location'' = None \<and> map_of q ''date'' = None \<and> map_of q ''status'' = None
    \<longrightarrow> get_events P fails d q
          = (d, respond 400 (Validation ''Validation error''
                  (map message (validate P queryValidationSchema (query_payload q)))))
        \<and> or_message \<in> set (map message (validate P queryValidationSchema (query_payload q))))
   \<and> (map_of q ''location'' \<noteq> None \<or> map_of q ''date'' \<noteq> None \<or> map_of q ''status'' \<noteq> None
    \<longrightarrow> dependency_errors queryValidationSchema (query_payload q) = [])"
proof (rule conjI; rule impI)
  assume "map_of q ''location'' = None \<and> map_of q ''date'' = None \<and> map_of q ''status'' = None"
  then have "dependency_errors queryValidationSchema (query_payload q)
      = [Detail [] object_missing or_message]"
    by (simp add: query_dependency_errors present_query_payload)
  then have "Detail [] object_missing or_message
      \<in> set (validate P queryValidationSchema (query_payload q))"
    by (simp add: validate_def)
  from message_reported [OF this]
  show "get_events P fails d q
          = (d, respond 400 (Validation ''Validation error''
                  (map message (validate P queryValidationSchema (query_payload q)))))
        \<and> or_message \<in> set (map message (validate P queryValidationSchema (query_payload q)))"
    by (simp add: get_events_def validateQuery_eq)
next
  assume "map_of q ''location'' \<noteq> None \<or> map_of q ''date'' \<noteq> None \<or> map_of q ''status'' \<noteq> None"
  then show "dependency_errors queryValidationSchema (query_payload q) = []"
    by (simp add: query_dependency_errors present_query_payload)
qed

theorem or_constraint_enforced_witness:
  "get_events sample_platform False sample_db [(''page'', ''2'')]
     = (sample_db, respond 400 (Validation ''Validation error''
          [label ''page'' @ '' is not allowed'', or_message]))
   \<and> dependency_errors queryValidationSchema (query_payload [(''status'', ''done'')]) = []"
proof -
  have v: "validate sample_platform queryValidationSchema (query_payload [(''page'', ''2'')])
     = [Detail ''page'' object_unknown (label ''page'' @ '' is not allowed''),
        Detail [] object_missing or_message]"
    by code_simp
  from or_constraint_enforced [where q = "[(''page'', ''2'')]" and P = sample_platform
      and fails = False and d = sample_db]
  have a: "get_events sample_platform False sample_db [(''page'', ''2'')]
     = (sample_db, respond 400 (Validation ''Validation error''
          [label ''page'' @ '' is not allowed'', or_message]))"
    by (simp add: v)
  from or_constraint_enforced [where q = "[(''status'', ''done'')]"]
  have b: "dependency_errors queryValidationSchema (query_payload [(''status'', ''done'')]) = []"
    by simp
  from a b show ?thesis by simp
qed

section \<open>What a valid payload looks like\<close>

lemma valid_field:
  assumes "validate P s obj = []" and "(k, f) \<in> set (obj_keys s)"
  shows "check_field P k f (map_of obj k) = []"
proof -
  from field_errors_reported [OF assms(2), of P obj] assms(1)
  show ?thesis by simp
qed

lemma valid_no_unknown:
  assumes "validate P s obj = []"
  shows "set (map fst obj) \<subseteq> set (map fst (obj_keys s))"
proof -
  from assms have "unknown_errors s obj = []" by (simp add: validate_def)
  then show ?thesis by (auto simp: unknown_errors_def filter_empty_conv)
qed

lemma check_required_string:
  assumes "check_field P k (messages ms (required Joi_string)) item = []"
  shows "\<exists>t. item = Some (JStr t) \<and> t \<noteq> []"
  using assms
  by (auto simp: check_field_def messages_def required_def Joi_string_def Joi_any_def
      allowed_def only_errors_def split: option.splits json.splits if_splits)

lemma check_description:
  assumes "check_field P k (messages ms (max_len 500 Joi_string)) item = []"
  shows "item = None \<or> (\<exists>t. item = Some (JStr t) \<and> t \<noteq> [] \<and> length t \<le> 500)"
  using assms
  by (auto simp: check_field_def messages_def max_len_def Joi_string_def Joi_any_def
      allowed_def only_errors_def split: option.splits json.splits if_splits)

lemma check_required_date:
  assumes "check_field P k (messages ms (required Joi_date)) item = []"
  shows "\<exists>v. item = Some v \<and> joi_date P v"
  using assms
  by (auto simp: check_field_def messages_def required_def Joi_date_def Joi_any_def
      allowed_def only_errors_def split: option.splits if_splits)

lemma check_status:
  assumes "check_field P k (default_to dv (valid vs Joi_string)) item = []"
  shows "item = None \<or> (\<exists>t. item = Some (JStr t) \<and> t \<in> set vs)"
  using assms
  by (auto simp: check_field_def default_to_def valid_def Joi_string_def Joi_any_def
      allowed_def only_errors_def split: option.splits if_splits)

lemma check_required_number:
  assumes "check_field P k (messages ms (required Joi_number)) item = []"
  shows "\<exists>v n. item = Some v \<and> to_number P v = Some n \<and> safe_number n"
  using assms
  by (auto simp: check_field_def messages_def required_def Joi_number_def Joi_any_def
      allowed_def only_errors_def split: option.splits if_splits)

lemma valid_create_body:
  assumes "validate P eventValidationSchema body = []"
  shows "\<exists>t. map_of body ''title'' = Some (JStr t) \<and> t \<noteq> []"
    and "map_of body ''description'' = None
         \<or> (\<exists>t. map_of body ''description'' = Some (JStr t) \<and> t \<noteq> [] \<and> length t \<le> 500)"
    and "\<exists>t. map_of body ''location'' = Some (JStr t) \<and> t \<noteq> []"
    and "\<exists>v. map_of body ''date'' = Some v \<and> joi_date P v"
    and "map_of body ''status'' = None
         \<or> (\<exists>t. map_of body ''status'' = Some (JStr t) \<and> t \<in> set status_enum)"
    and "map_of body ''__v'' = None"
proof -
  note v = valid_field [OF assms]
  show "\<exists>t. map_of body ''title'' = Some (JStr t) \<and> t \<noteq> []"
    by (rule check_required_string, rule v) (simp add: eventValidationSchema_def Joi_object_def)
  show "map_of body ''description'' = None
         \<or> (\<exists>t. map_of body ''description'' = Some (JStr t) \<and> t \<noteq> [] \<and> length t \<le> 500)"
    by (rule check_description, rule v) (simp add: eventValidationSchema_def Joi_object_def)
  show "\<exists>t. map_of body ''location'' = Some (JStr t) \<and> t \<noteq> []"
    by (rule check_required_string, rule v) (simp add: eventValidationSchema_def Joi_object_def)
  show "\<exists>v. map_of body ''date'' = Some v \<and> joi_date P v"
    by (rule check_required_date, rule v) (simp add: eventValidationSchema_def Joi_object_def)
  have "map_of body ''status'' = None
         \<or> (\<exists>t. map_of body ''status'' = Some (JStr t)
               \<and> t \<in> set [''active'', ''cancelled'', ''done''])"
    by (rule check_status, rule v) (simp add: eventValidationSchema_def Joi_object_def)
  then show "map_of body ''status'' = None
         \<or> (\<exists>t. map_of body ''status'' = Some (JStr t) \<and> t \<in> set status_enum)"
    by (simp only: status_enum_def)
  from valid_no_unknown [OF assms] have "''__v'' \<notin> set (map fst body)"
    by (auto simp: event_schema_keys)
  then show "map_of body ''__v'' = None"
    by (simp add: map_of_eq_None_iff)
qed

lemma valid_update_body:
  assumes "validate P updateEventValidationSchema body = []"
  shows "\<exists>t. map_of body ''title'' = Some (JStr t) \<and> t \<noteq> []"
    and "map_of body ''description'' = None
         \<or> (\<exists>t. map_of body ''description'' = Some (JStr t) \<and> t \<noteq> [] \<and> length t \<le> 500)"
    and "\<exists>t. map_of body ''location'' = Some (JStr t) \<and> t \<noteq> []"
    and "\<exists>v. map_of body ''date'' = Some v \<and> joi_date P v"
    and "map_of body ''status'' = None
         \<or> (\<exists>t. map_of body ''status'' = Some (JStr t) \<and> t \<in> set status_enum)"
    and "\<exists>v n. map_of body ''__v'' = Some v \<and> to_number P v = Some n \<and> safe_number n"
proof -
  note v = valid_field [OF assms]
  note s = updateEventValidationSchema_def eventValidationSchema_def Joi_object_def
    concat_schema_def
  show "\<exists>t. map_of body ''title'' = Some (JStr t) \<and> t \<noteq> []"
    by (rule check_required_string, rule v) (simp add: s)
  show "map_of body ''description'' = None
         \<or> (\<exists>t. map_of body ''description'' = Some (JStr t) \<and> t \<noteq> [] \<and> length t \<le> 500)"
    by (rule check_description, rule v) (simp add: s)
  show "\<exists>t. map_of body ''location'' = Some (JStr t) \<and> t \<noteq> []"
    by (rule check_required_string, rule v) (simp add: s)
  show "\<exists>v. map_of body ''date'' = Some v \<and> joi_date P v"
    by (rule check_required_date, rule v) (simp add: s)
  have "map_of body ''status'' = None
         \<or> (\<exists>t. map_of body ''status'' = Some (JStr t)
               \<and> t \<in> set [''active'', ''cancelled'', ''done''])"
    by (rule check_status, rule v) (simp add: s)
  then show "map_of body ''status'' = None
         \<or> (\<exists>t. map_of body ''status'' = Some (JStr t) \<and> t \<in> set status_enum)"
    by (simp only: status_enum_def)
  show "\<exists>v n. map_of body ''__v'' = Some v \<and> to_number P v = Some n \<and> safe_number n"
    by (rule check_required_number, rule v) (simp add: s)
qed

section \<open>Deleting\<close>

lemma find_id_None:
  "find (\<lambda>e. oid e = i) es = None \<longleftrightarrow> i \<notin> set (map oid es)"
  by (auto simp: find_None_iff)

lemma remove_first_ids:
  "distinct (map oid es) \<Longrightarrow> i \<notin> set (map oid (remove_first (\<lambda>e. oid e = i) es))"
  by (induction es) auto

lemma delete_absent:
  assumes "castObjectId P rid = Some i" and "i \<notin> set (map oid (events d))"
  shows "delete_events_id P False d rid = (d, respond 404 (Message ''Event not found''))"
proof -
  from assms(2) have "find (\<lambda>e. oid e = i) (events d) = None"
    by (simp add: find_id_None)
  with assms(1) show ?thesis
    by (simp add: delete_events_id_def findByIdAndDelete_def id_filter_def)
qed

lemma delete_present:
  assumes "castObjectId P rid = Some i" and "i \<in> set (map oid (events d))"
  shows "delete_events_id P False d rid
     = (d\<lparr>events := remove_first (\<lambda>e. oid e = i) (events d)\<rparr>,
        respond 200 (Message ''Event deleted successfully''))"
proof -
  from assms(2) obtain e where "find (\<lambda>e. oid e = i) (events d) = Some e"
    by (cases "find (\<lambda>e. oid e = i) (events d)") (simp_all add: find_id_None)
  with assms(1) show ?thesis
    by (simp add: delete_events_id_def findByIdAndDelete_def id_filter_def)
qed

text \<open>
  C8, as the code has it. For a path id that casts to an ObjectId and when the store
  does not fail: if no stored event has the id, the answer is 404 "Event not found"
  and the collection is unchanged (so repeating the request gives 404 each time); if
  an event has it (identifiers being unique in the collection), the answer is 200 and
  the same request on the resulting collection is answered 404.
\<close>

theorem delete_well_formed_id:
  "castObjectId P rid = Some i \<Longrightarrow>
     (i \<notin> set (map oid (events d))
        \<longrightarrow> delete_events_id P False d rid = (d, respond 404 (Message ''Event not found'')))
     \<and> (i \<in> set (map oid (events d)) \<and> distinct (map oid (events d))
        \<longrightarrow> snd (delete_events_id P False d rid)
              = respond 200 (Message ''Event deleted successfully'')
            \<and> delete_events_id P False (fst (delete_events_id P False d rid)) rid
              = (fst (delete_events_id P False d rid),
                 respond 404 (Message ''Event not found'')))"
proof (rule conjI; rule impI)
  assume c: "castObjectId P rid = Some i" and "i \<notin> set (map oid (events d))"
  then show "delete_events_id P False d rid = (d, respond 404 (Message ''Event not found''))"
    by (rule delete_absent)
next
  assume c: "castObjectId P rid = Some i"
    and "i \<in> set (map oid (events d)) \<and> distinct (map oid (events d))"
  then have m: "i \<in> set (map oid (events d))" and u: "distinct (map oid (events d))"
    by simp_all
  let ?d1 = "d\<lparr>events := remove_first (\<lambda>e. oid e = i) (events d)\<rparr>"
  note first = delete_present [OF c m]
  from remove_first_ids [OF u, of i] have "i \<notin> set (map oid (events ?d1))" by simp
  from delete_absent [OF c this] first
  show "snd (delete_events_id P False d rid)
              = respond 200 (Message ''Event deleted successfully'')
            \<and> delete_events_id P False (fst (delete_events_id P False d rid)) rid
              = (fst (delete_events_id P False d rid),
                 respond 404 (Message ''Event not found''))"
    by simp
qed

theorem delete_well_formed_id_witness:
  "delete_events_id sample_platform False empty_db sample_id
     = (empty_db, respond 404 (Message ''Event not found''))
   \<and> delete_events_id sample_platform False sample_db sample_id
     = (empty_db\<lparr>next_oid := 2\<rparr>, respond 200 (Message ''Event deleted successfully''))
   \<and> delete_events_id sample_platform False (empty_db\<lparr>next_oid := 2\<rparr>) sample_id
     = (empty_db\<lparr>next_oid := 2\<rparr>, respond 404 (Message ''Event not found''))"
proof -
  have c: "castObjectId sample_platform sample_id = Some 1"
    by (simp add: sample_platform_def sample_id_def hex_value_def)
  have r: "delete_events_id sample_platform False sample_db sample_id
     = (empty_db\<lparr>next_oid := 2\<rparr>, respond 200 (Message ''Event deleted successfully''))"
    by (simp add: delete_events_id_def findByIdAndDelete_def id_filter_def c sample_db_def
        sample_event_def empty_db_def)
  from delete_well_formed_id [OF c, of empty_db]
  have a: "delete_events_id sample_platform False empty_db sample_id
     = (empty_db, respond 404 (Message ''Event not found''))"
    by (simp add: empty_db_def)
  from delete_well_formed_id [OF c, of sample_db]
  have b: "delete_events_id sample_platform False (empty_db\<lparr>next_oid := 2\<rparr>) sample_id
     = (empty_db\<lparr>next_oid := 2\<rparr>, respond 404 (Message ''Event not found''))"
    by (simp add: r) (simp add: sample_db_def sample_event_def)
  from a r b show ?thesis by simp
qed

text \<open>
  The claim as the specification states it, for every id that is not in the store,
  fails on an id that is not well formed: no event is stored at all, and the answer
  is 500.
\<close>

theorem delete_absent_id_counterexample:
  "events empty_db = []
   \<and> delete_events_id sample_platform False empty_db ''mockId''
       = (empty_db, respond 500 (Message ''Error deleting event''))
   \<and> status_code (snd (delete_events_id sample_platform False empty_db ''mockId'')) \<noteq> 404"
  by (simp add: delete_events_id_def findByIdAndDelete_def id_filter_def sample_platform_def
      empty_db_def respond_def)

text \<open>
  C10. A delete request whose path segment does not cast to an ObjectId makes
  \<open>findByIdAndDelete\<close> throw a cast error; the catch branch answers 500 with
  "Error deleting event", not 404, and the collection is left as it was.
\<close>

theorem malformed_id_delete_500:
  "castObjectId P rid = None \<Longrightarrow>
     delete_events_id P fails d rid = (d, respond 500 (Message ''Error deleting event''))
     \<and> status_code (snd (delete_events_id P fails d rid)) \<noteq> 404"
  by (simp add: delete_events_id_def findByIdAndDelete_def id_filter_def respond_def)

theorem malformed_id_delete_500_witness:
  "castObjectId sample_platform ''mockId'' = None
   \<and> delete_events_id sample_platform False sample_db ''mockId''
       = (sample_db, respond 500 (Message ''Error deleting event''))"
proof -
  have h: "castObjectId sample_platform ''mockId'' = None"
    by (simp add: sample_platform_def)
  from malformed_id_delete_500 [OF h, of False sample_db] h show ?thesis by simp
qed

section \<open>Updating\<close>

lemma cast_update_oid:
  "cast_update P body = Inr u \<Longrightarrow> oid (u e) = oid e"
  by (auto simp: cast_update_def split: option.splits)

lemma cast_update_version:
  "cast_update P body = Inr u \<Longrightarrow> map_of body ''__v'' = Some vj \<Longrightarrow> to_number P vj = Some n
     \<Longrightarrow> version (u e) = n"
  by (auto simp: cast_update_def set_path_def split: option.splits)

lemma cast_update_no_version:
  "cast_update P body = Inr u \<Longrightarrow> map_of body ''__v'' = None \<Longrightarrow> version (u e) = version e"
  by (auto simp: cast_update_def set_path_def split: option.splits)

lemma cast_update_valid:
  assumes "validate P updateEventValidationSchema body = []"
    and "map_of body ''date'' = Some dv" and "castDate P dv = Some t"
  shows "\<exists>u. cast_update P body = Inr u"
  using valid_update_body [OF assms(1)] assms(2,3)
  by (auto simp: cast_update_def)


lemma find_none_match:
  "list_all (\<lambda>e. \<not> (oid e = i \<and> version e = v)) es
     \<Longrightarrow> find (\<lambda>e. oid e = i \<and> version e = v) es = None"
  by (simp add: find_None_iff list_all_iff)

lemma put_conflict:
  assumes "validate P updateEventValidationSchema body = []"
    and "castObjectId P rid = Some i"
    and "map_of body ''__v'' = Some vj" and "to_number P vj = Some v"
    and "map_of body ''date'' = Some dv" and "castDate P dv = Some t"
    and "list_all (\<lambda>e. \<not> (oid e = i \<and> version e = v)) (events d)"
  shows "put_events_id P False d rid body = (d, respond 409 (Message conflict_message))"
proof -
  from cast_update_valid [OF assms(1,5,6)] obtain u where u: "cast_update P body = Inr u" ..
  from find_none_match [OF assms(7)] u assms(1-4) show ?thesis
    by (simp add: put_events_id_def validateRequest_eq findOneAndUpdate_def
        id_version_filter_def)
qed

lemma put_no_match_unchanged:
  assumes "castObjectId P rid = Some i"
    and "map_of body ''__v'' = Some vj" and "to_number P vj = Some v"
    and "list_all (\<lambda>e. \<not> (oid e = i \<and> version e = v)) (events d)"
  shows "fst (put_events_id P fails d rid body) = d"
  using find_none_match [OF assms(4)] assms(1-3)
  by (simp add: put_events_id_def validateRequest_eq findOneAndUpdate_def
      id_version_filter_def split: sum.splits)

lemma sample_update_body_valid:
  "safe_number n \<Longrightarrow>
     validate sample_platform updateEventValidationSchema (update_body n) = []"
  by (simp add: validate_def updateEventValidationSchema_def eventValidationSchema_def
      concat_schema_def Joi_object_def check_field_def messages_def required_def
      max_len_def valid_def default_to_def Joi_string_def Joi_date_def Joi_number_def
      Joi_any_def allowed_def only_errors_def unknown_errors_def dependency_errors_def
      update_body_def sample_platform_def sample_date_def blank_def)

text \<open>
  C1, as the code has it. Take an update request whose path id casts to an ObjectId
  and whose body carries a version, and suppose that no stored event has both that id
  and that version (the version is stale, or no event has the id). Then the
  collection is left as it was, whatever the answer; and when the body passes the
  validation, its date casts and the store does not fail, the answer is 409 with
  "Event has been updated by another user. Please refresh.".
\<close>

theorem stale_update_conflict:
  "castObjectId P rid = Some i \<Longrightarrow> map_of body ''__v'' = Some vj \<Longrightarrow> to_number P vj = Some v
   \<Longrightarrow> list_all (\<lambda>e. \<not> (oid e = i \<and> version e = v)) (events d)
   \<Longrightarrow> fst (put_events_id P fails d rid body) = d
       \<and> (validate P updateEventValidationSchema body = []
            \<and> map_of body ''date'' = Some dv \<and> castDate P dv = Some t
          \<longrightarrow> put_events_id P False d rid body = (d, respond 409 (Message conflict_message)))"
  using put_no_match_unchanged [of P rid i body vj v d fails]
    put_conflict [of P body rid i vj v dv t d]
  by simp

theorem stale_update_conflict_witness:
  "put_events_id sample_platform False sample_db sample_id (update_body 3)
     = (sample_db, respond 409 (Message conflict_message))
   \<and> put_events_id sample_platform False empty_db sample_id (update_body 0)
     = (empty_db, respond 409 (Message conflict_message))"
proof -
  have c: "castObjectId sample_platform sample_id = Some 1"
    by (simp add: sample_platform_def sample_id_def hex_value_def)
  note v = sample_update_body_valid
  have dt: "castDate sample_platform (JStr ''2024-12-12'') = Some 1733961600000"
    by (simp add: sample_platform_def sample_date_def)
  from stale_update_conflict [OF c, of "update_body 3" "JNum 3" 3 sample_db False
      "JStr ''2024-12-12''" 1733961600000] v [of 3] dt
  have a: "put_events_id sample_platform False sample_db sample_id (update_body 3)
     = (sample_db, respond 409 (Message conflict_message))"
    by (simp add: update_body_def sample_db_def sample_event_def safe_number_def)
  from stale_update_conflict [OF c, of "update_body 0" "JNum 0" 0 empty_db False
      "JStr ''2024-12-12''" 1733961600000] v [of 0] dt
  have b: "put_events_id sample_platform False empty_db sample_id (update_body 0)
     = (empty_db, respond 409 (Message conflict_message))"
    by (simp add: update_body_def empty_db_def safe_number_def)
  from a b show ?thesis by simp
qed

text \<open>
  The claim as the specification states it, 409 whenever no event with the given id
  exists, fails on an id that is not well formed: the body is valid, no event is
  stored at all, and the answer is 500.
\<close>

theorem missing_id_conflict_counterexample:
  "validate sample_platform updateEventValidationSchema (update_body 0) = []
   \<and> events empty_db = []
   \<and> put_events_id sample_platform False empty_db ''mockId'' (update_body 0)
       = (empty_db, respond 500 (Message ''Error updating event''))
   \<and> status_code (snd (put_events_id sample_platform False empty_db ''mockId'' (update_body 0)))
       \<noteq> 409"
proof -
  have v: "validate sample_platform updateEventValidationSchema (update_body 0) = []"
    by (simp add: sample_update_body_valid safe_number_def)
  have c: "castObjectId sample_platform ''mockId'' = None"
    by (simp add: sample_platform_def)
  have r: "put_events_id sample_platform False empty_db ''mockId'' (update_body 0)
       = (empty_db, respond 500 (Message ''Error updating event''))"
    by (simp add: put_events_id_def validateRequest_eq v findOneAndUpdate_def
        id_version_filter_def c)
  from v r show ?thesis by (simp add: empty_db_def respond_def)
qed

section \<open>The version under updates\<close>

lemma update_first_versions:
  "(\<And>e. p e \<Longrightarrow> version (u e) = version e)
     \<Longrightarrow> map version (update_first p u es) = map version es"
  by (induction es) simp_all

lemma find_False:
  "find (\<lambda>e. False) es = None"
  by (induction es) simp_all

lemma findOneAndUpdate_versions:
  assumes "findOneAndUpdate fails d (id_version_filter P rid (map_of body ''__v''))
             (cast_update P body) = Inr (d1, r)"
  shows "map version (events d1) = map version (events d)"
proof (cases "map_of body ''__v''")
  case None
  with assms show ?thesis
    by (auto simp: findOneAndUpdate_def id_version_filter_def find_False
        split: if_splits option.splits sum.splits)
next
  case (Some vj)
  show ?thesis
  proof (cases "cast_update P body")
    case (Inl err)
    with assms show ?thesis
      by (auto simp: findOneAndUpdate_def split: if_splits sum.splits)
  next
    case (Inr u)
    show ?thesis
    proof (cases "to_number P vj")
      case None
      with assms Some show ?thesis
        by (auto simp: findOneAndUpdate_def id_version_filter_def
            split: if_splits option.splits sum.splits)
    next
      case (Some n)
      have keep: "version (u e) = version e" if "oid e = i \<and> version e = n" for e i
        using cast_update_version [OF Inr \<open>map_of body ''__v'' = Some vj\<close> Some, of e] that
        by simp
      from assms Inr Some \<open>map_of body ''__v'' = Some vj\<close> show ?thesis
        by (auto simp: findOneAndUpdate_def id_version_filter_def keep
            intro!: update_first_versions split: if_splits option.splits)
    qed
  qed
qed

lemma put_keeps_versions:
  "map version (events (fst (put_events_id P fails d rid body))) = map version (events d)"
proof (cases "findOneAndUpdate fails d (id_version_filter P rid (map_of body ''__v''))
                (cast_update P body)")
  case (Inl err)
  then show ?thesis
    by (simp add: put_events_id_def split: option.splits)
next
  case (Inr res)
  obtain d1 r where res: "res = (d1, r)" by (cases res)
  from findOneAndUpdate_versions [OF Inr [unfolded res]] Inr res show ?thesis
    by (simp add: put_events_id_def split: option.splits)
qed

text \<open>
  C2 at a concrete input. The stored event has version 0; the update request carries
  version 0 and is answered 200; the stored version is 0 afterwards, not 1, and the
  same request sent again is answered 200 again, not 409.
\<close>

theorem update_leaves_version:
  "version sample_event = 0
   \<and> put_events_id sample_platform False sample_db sample_id (update_body 0)
       = (sample_db\<lparr>events := [sample_event\<lparr>title := ''Updated''\<rparr>]\<rparr>,
          respond 200 (Selected (selected (sample_event\<lparr>title := ''Updated''\<rparr>))))
   \<and> version (sample_event\<lparr>title := ''Updated''\<rparr>) = 0
   \<and> put_events_id sample_platform False
         (sample_db\<lparr>events := [sample_event\<lparr>title := ''Updated''\<rparr>]\<rparr>) sample_id (update_body 0)
       = (sample_db\<lparr>events := [sample_event\<lparr>title := ''Updated''\<rparr>]\<rparr>,
          respond 200 (Selected (selected (sample_event\<lparr>title := ''Updated''\<rparr>))))"
proof -
  have c: "castObjectId sample_platform sample_id = Some 1"
    by (simp add: sample_platform_def sample_id_def hex_value_def)
  have v: "validate sample_platform updateEventValidationSchema (update_body 0) = []"
    by (simp add: sample_update_body_valid safe_number_def)
  have u: "cast_update sample_platform (update_body 0)
     = Inr (\<lambda>e. e\<lparr>title := ''Updated'', description := description e, location := ''Hall'',
                   date := 1733961600000, status := status e, version := 0\<rparr>)"
    by (simp add: cast_update_def update_body_def sample_platform_def sample_date_def
        set_path_def)
  have f: "id_version_filter sample_platform sample_id (map_of (update_body 0) ''__v'')
     = Inr (\<lambda>e. oid e = 1 \<and> version e = 0)"
    by (simp add: id_version_filter_def c update_body_def)
  have a: "put_events_id sample_platform False sample_db sample_id (update_body 0)
       = (sample_db\<lparr>events := [sample_event\<lparr>title := ''Updated''\<rparr>]\<rparr>,
          respond 200 (Selected (selected (sample_event\<lparr>title := ''Updated''\<rparr>))))"
    by (simp add: put_events_id_def validateRequest_eq v findOneAndUpdate_def f u
        sample_db_def sample_event_def)
  have b: "put_events_id sample_platform False
         (sample_db\<lparr>events := [sample_event\<lparr>title := ''Updated''\<rparr>]\<rparr>) sample_id (update_body 0)
       = (sample_db\<lparr>events := [sample_event\<lparr>title := ''Updated''\<rparr>]\<rparr>,
          respond 200 (Selected (selected (sample_event\<lparr>title := ''Updated''\<rparr>))))"
    by (simp add: put_events_id_def validateRequest_eq v findOneAndUpdate_def f u
        sample_db_def sample_event_def)
  from a b show ?thesis by (simp add: sample_event_def)
qed

section \<open>The two update routes\<close>






lemma sample_create_body_valid:
  "validate sample_platform eventValidationSchema create_body = []"
  by (simp add: validate_def eventValidationSchema_def Joi_object_def check_field_def
      messages_def required_def max_len_def valid_def default_to_def Joi_string_def
      Joi_date_def Joi_any_def allowed_def only_errors_def unknown_errors_def
      dependency_errors_def create_body_def sample_platform_def sample_date_def blank_def)


section \<open>Creating\<close>

lemma new_Event_valid:
  assumes "validate P eventValidationSchema body = []"
    and "map_of body ''date'' = Some dv" and "castDate P dv = Some t"
  shows "\<exists>e. new_Event P i body = Inr e \<and> oid e = i \<and> version e = 0 \<and> date e = t"
  using valid_create_body(1-5) [OF assms(1)] assms(2,3)
  by (auto simp: new_Event_def status_enum_def)

lemma ids_issued_append:
  "ids_issued d \<Longrightarrow> oid e = next_oid d
     \<Longrightarrow> ids_issued (d\<lparr>next_oid := Suc (next_oid d), events := events d @ [e]\<rparr>)"
  by (auto simp: ids_issued_def list_all_iff)

lemma ids_issued_fresh:
  "ids_issued d \<Longrightarrow> next_oid d \<notin> set (map oid (events d))"
  by (auto simp: ids_issued_def list_all_iff)

lemma set_remove_first:
  "set (remove_first p es) \<subseteq> set es"
  by (induction es) auto

lemma update_first_oids:
  "(\<And>e. oid (u e) = oid e) \<Longrightarrow> map oid (update_first p u es) = map oid es"
  by (induction es) simp_all

lemma delete_ids_issued:
  assumes "ids_issued d"
  shows "ids_issued (fst (delete_events_id P fails d rid))
     \<and> next_oid (fst (delete_events_id P fails d rid)) = next_oid d"
  using assms set_remove_first [of "\<lambda>e. oid e = the (castObjectId P rid)" "events d"]
  by (auto simp: delete_events_id_def findByIdAndDelete_def id_filter_def ids_issued_def
      list_all_iff split: option.splits)

lemma put_ids_issued:
  assumes "ids_issued d"
  shows "ids_issued (fst (put_events_id P fails d rid body))
     \<and> next_oid (fst (put_events_id P fails d rid body)) = next_oid d"
proof (cases "cast_update P body")
  case (Inl err)
  with assms show ?thesis
    by (simp add: put_events_id_def findOneAndUpdate_def split: option.splits sum.splits)
next
  case (Inr u)
  have "map oid (update_first p u (events d)) = map oid (events d)" for p
    by (rule update_first_oids) (rule cast_update_oid [OF Inr])
  then have "set (map oid (update_first p u (events d))) = set (map oid (events d))" for p
    by simp
  then have k: "list_all (\<lambda>e. oid e < n) (update_first p u (events d))
      = list_all (\<lambda>e. oid e < n) (events d)" for p n
    by (simp add: list_all_iff) (metis (no_types, lifting) image_iff)
  from assms Inr show ?thesis
    by (simp add: put_events_id_def findOneAndUpdate_def ids_issued_def k
        split: option.splits sum.splits)
qed

lemma get_unchanged:
  "fst (get_events P fails d q) = d"
  by (simp add: get_events_def split: option.splits sum.splits)

text \<open>
  C7, as the code has it. For a create payload that passes the validation and whose
  date Mongoose casts to a Date, when the store does not fail the answer is 201 with
  the stored event, the document made of the payload; its version is 0 and its id is
  the generator's next one, which no stored event has (every stored id having been
  issued by the generator, a property that each route keeps). When the store fails
  the answer is 500 "Error saving event" and nothing is stored.
\<close>

theorem create_fresh:
  "validate P eventValidationSchema body = [] \<Longrightarrow> map_of body ''date'' = Some dv
   \<Longrightarrow> castDate P dv = Some t \<Longrightarrow> ids_issued d
   \<Longrightarrow> (\<exists>e. post_events P False d body
              = (d\<lparr>next_oid := Suc (next_oid d), events := events d @ [e]\<rparr>,
                 respond 201 (Document e))
            \<and> new_Event P (next_oid d) body = Inr e \<and> date e = t
            \<and> version e = 0 \<and> oid e = next_oid d \<and> oid e \<notin> set (map oid (events d)))
       \<and> ids_issued (fst (post_events P False d body))
       \<and> snd (post_events P True d body) = respond 500 (Message ''Error saving event'')
       \<and> events (fst (post_events P True d body)) = events d"
proof -
  assume v: "validate P eventValidationSchema body = []"
    and dt: "map_of body ''date'' = Some dv" "castDate P dv = Some t"
    and inv: "ids_issued d"
  from new_Event_valid [OF v dt, of "next_oid d"]
  obtain e where e: "new_Event P (next_oid d) body = Inr e" "oid e = next_oid d" "version e = 0"
    and et: "date e = t"
    by blast
  from v e(1)
  have ok: "post_events P False d body
              = (d\<lparr>next_oid := Suc (next_oid d), events := events d @ [e]\<rparr>,
                 respond 201 (Document e))"
    by (simp add: post_events_def validateRequest_eq save_def)
  from v have ko: "post_events P True d body
      = (d\<lparr>next_oid := Suc (next_oid d)\<rparr>, respond 500 (Message ''Error saving event''))"
    by (simp add: post_events_def validateRequest_eq save_def)
  from ids_issued_fresh [OF inv] e(2) have fresh: "oid e \<notin> set (map oid (events d))"
    by simp
  from ids_issued_append [OF inv e(2)] ok
  have inv': "ids_issued (fst (post_events P False d body))" by simp
  from ok e et fresh have "\<exists>e. post_events P False d body
              = (d\<lparr>next_oid := Suc (next_oid d), events := events d @ [e]\<rparr>,
                 respond 201 (Document e))
            \<and> new_Event P (next_oid d) body = Inr e \<and> date e = t
            \<and> version e = 0 \<and> oid e = next_oid d \<and> oid e \<notin> set (map oid (events d))"
    by blast
  with inv' ko show ?thesis by simp
qed

theorem create_fresh_witness:
  "post_events sample_platform False sample_db create_body
     = (sample_db\<lparr>next_oid := 3, events := [sample_event, sample_event\<lparr>oid := 2\<rparr>]\<rparr>,
        respond 201 (Document (sample_event\<lparr>oid := 2\<rparr>)))
   \<and> version (sample_event\<lparr>oid := 2\<rparr>) = 0
   \<and> post_events sample_platform True sample_db create_body
     = (sample_db\<lparr>next_oid := 3\<rparr>, respond 500 (Message ''Error saving event''))"
proof -
  have dt: "castDate sample_platform (JStr ''2024-12-12'') = Some 1733961600000"
    by (simp add: sample_platform_def sample_date_def)
  have m: "map_of create_body ''date'' = Some (JStr ''2024-12-12'')"
    by (simp add: create_body_def)
  have inv: "ids_issued sample_db"
    by (simp add: ids_issued_def sample_db_def sample_event_def)
  have n: "new_Event sample_platform 2 create_body = Inr (sample_event\<lparr>oid := 2\<rparr>)"
    by (simp add: new_Event_def create_body_def sample_platform_def sample_date_def
        status_enum_def sample_event_def)
  have a: "post_events sample_platform False sample_db create_body
     = (sample_db\<lparr>next_oid := 3, events := [sample_event, sample_event\<lparr>oid := 2\<rparr>]\<rparr>,
        respond 201 (Document (sample_event\<lparr>oid := 2\<rparr>)))"
    by (simp add: post_events_def validateRequest_eq sample_create_body_valid save_def
        sample_db_def n)
  from create_fresh [OF sample_create_body_valid m dt inv]
  have "snd (post_events sample_platform True sample_db create_body)
       = respond 500 (Message ''Error saving event'')
     \<and> events (fst (post_events sample_platform True sample_db create_body)) = events sample_db"
    by simp
  moreover have "next_oid (fst (post_events sample_platform True sample_db create_body)) = 3"
    by (simp add: post_events_def validateRequest_eq sample_create_body_valid save_def
        sample_db_def)
  ultimately have b: "post_events sample_platform True sample_db create_body
     = (sample_db\<lparr>next_oid := 3\<rparr>, respond 500 (Message ''Error saving event''))"
    by (cases "post_events sample_platform True sample_db create_body")
       (simp add: sample_db_def)
  from a b show ?thesis by (simp add: sample_event_def)
qed

text \<open>
  The claim as the specification states it, 201 for every payload that the
  validation accepts, fails on a date that the validation accepts and Mongoose does
  not cast: title, location and date are present, the schema reports no error, the
  store does not fail, and the answer is 500 with nothing stored.
\<close>

theorem create_uncast_date_counterexample:
  "validate digits_platform eventValidationSchema digits_date_body = []
   \<and> post_events digits_platform False empty_db digits_date_body
       = (empty_db\<lparr>next_oid := 1\<rparr>, respond 500 (Message ''Error saving event''))
   \<and> events (empty_db\<lparr>next_oid := 1\<rparr>) = []
   \<and> status_code (snd (post_events digits_platform False empty_db digits_date_body)) \<noteq> 201"
proof -
  have v: "validate digits_platform eventValidationSchema digits_date_body = []"
    by code_simp
  have c: "castDate digits_platform (JStr ''13'') = None"
    by (simp add: digits_platform_def mongoose_date_string_def digits_value_def
        hex_value_def sample_date_def)
  have n: "new_Event digits_platform 0 digits_date_body = Inl ValidationError"
    by (simp add: new_Event_def digits_date_body_def c)
  have r: "post_events digits_platform False empty_db digits_date_body
       = (empty_db\<lparr>next_oid := 1\<rparr>, respond 500 (Message ''Error saving event''))"
    by (simp add: post_events_def validateRequest_eq v save_def empty_db_def n)
  from v r show ?thesis by (simp add: respond_def empty_db_def)
qed

section \<open>Listing with a filter\<close>

lemma check_query_location:
  assumes "check_field P k (max_len 50 (min_len 3 (optional Joi_string)))
             (map_option JStr item) = []"
  shows "item = None \<or> (\<exists>s. item = Some s \<and> 3 \<le> length s \<and> length s \<le> 50)"
  using assms
  by (cases item)
     (auto simp: check_field_def max_len_def min_len_def optional_def Joi_string_def
        Joi_any_def allowed_def only_errors_def split: if_splits)

lemma check_query_date:
  assumes "check_field P k (optional Joi_date) (map_option JStr item) = []"
  shows "item = None \<or> (\<exists>s. item = Some s \<and> s \<noteq> [])"
  using assms
  by (cases item)
     (auto simp: check_field_def optional_def Joi_date_def Joi_any_def allowed_def
        only_errors_def blank_def split: if_splits)

lemma check_query_status:
  assumes "check_field P k (valid vs (optional Joi_string)) (map_option JStr item) = []"
  shows "item = None \<or> (\<exists>s. item = Some s \<and> s \<in> set vs)"
  using assms
  by (cases item)
     (auto simp: check_field_def valid_def optional_def Joi_string_def Joi_any_def
        allowed_def only_errors_def split: if_splits)

lemma valid_query:
  assumes "validate P queryValidationSchema (query_payload q) = []"
  shows "truthy (map_of q ''location'') = (map_of q ''location'' \<noteq> None)"
    and "truthy (map_of q ''date'') = (map_of q ''date'' \<noteq> None)"
    and "truthy (map_of q ''status'') = (map_of q ''status'' \<noteq> None)"
proof -
  note v = valid_field [OF assms, unfolded map_of_query_payload]
  note s = queryValidationSchema_def or_peers_def Joi_object_def
  have "map_of q ''location'' = None
      \<or> (\<exists>s. map_of q ''location'' = Some s \<and> 3 \<le> length s \<and> length s \<le> 50)"
    by (rule check_query_location, rule v) (simp add: s)
  then show "truthy (map_of q ''location'') = (map_of q ''location'' \<noteq> None)"
    by (auto simp: truthy_def)
  have "map_of q ''date'' = None \<or> (\<exists>s. map_of q ''date'' = Some s \<and> s \<noteq> [])"
    by (rule check_query_date, rule v) (simp add: s)
  then show "truthy (map_of q ''date'') = (map_of q ''date'' \<noteq> None)"
    by (auto simp: truthy_def)
  have "map_of q ''status'' = None
      \<or> (\<exists>s. map_of q ''status'' = Some s \<and> s \<in> set [''active'', ''cancelled'', ''done''])"
    by (rule check_query_status, rule v) (simp add: s)
  then show "truthy (map_of q ''status'') = (map_of q ''status'' \<noteq> None)"
    by (auto simp: truthy_def)
qed

lemma build_query_valid:
  assumes "validate P queryValidationSchema (query_payload q) = []"
  shows "build_query P q
     = \<lparr>q_location = map_of q ''location'',
        q_date = map_option (newDate P) (map_of q ''date''),
        q_status = map_of q ''status''\<rparr>"
  using valid_query [OF assms]
  by (simp add: build_query_def Let_def)

lemma matches_build_query:
  assumes "validate P queryValidationSchema (query_payload q) = []"
  shows "matches (build_query P q) e = matches_given P q e"
  by (simp add: build_query_valid [OF assms] matches_def matches_given_def
      split: option.splits) (auto simp: eq_commute)

lemma list_no_parameter:
  assumes "map_of q ''location'' = None" and "map_of q ''date'' = None"
    and "map_of q ''status'' = None"
  shows "status_code (snd (get_events P fails d q)) = 400"
proof -
  from assms have "dependency_errors queryValidationSchema (query_payload q)
      = [Detail [] object_missing or_message]"
    by (simp add: query_dependency_errors present_query_payload)
  then have "validate P queryValidationSchema (query_payload q) \<noteq> []"
    by (simp add: validate_def)
  then show ?thesis
    by (simp add: get_events_def validateQuery_eq respond_def)
qed

lemma list_filtered:
  assumes "validate P queryValidationSchema (query_payload q) = []"
    and "case map_of q ''date'' of None \<Rightarrow> True | Some s \<Rightarrow> newDate P s \<noteq> None"
  shows "get_events P False d q
     = (d, respond 200 (SelectedList (map selected (filter (matches_given P q) (events d)))))"
proof -
  from assms(2) have "q_date (build_query P q) \<noteq> Some None"
    by (auto simp: build_query_valid [OF assms(1)] split: option.splits)
  moreover have "filter (matches (build_query P q)) (events d)
      = filter (matches_given P q) (events d)"
    by (rule filter_cong) (simp_all add: matches_build_query [OF assms(1)])
  ultimately show ?thesis
    using assms(1)
    by (simp add: get_events_def validateQuery_eq find_events_def)
qed

text \<open>
  C4, as the code has it. A list request with none of location, date and status
  (so also one with no parameter at all) is answered 400. A list request that
  passes the query validation, whose date parameter, if given, is a date for
  \<open>new Date\<close>, is answered 200 when the store does not fail, with exactly the
  stored events that agree with every given parameter, in the stored order.
\<close>

theorem list_filtered_exactly:
  "(map_of q ''location'' = None \<and> map_of q ''date'' = None \<and> map_of q ''status'' = None
      \<longrightarrow> status_code (snd (get_events P fails d q)) = 400)
   \<and> (validate P queryValidationSchema (query_payload q) = []
        \<and> (case map_of q ''date'' of None \<Rightarrow> True | Some s \<Rightarrow> newDate P s \<noteq> None)
      \<longrightarrow> get_events P False d q
            = (d, respond 200
                    (SelectedList (map selected (filter (matches_given P q) (events d))))))"
  using list_no_parameter [of q P fails d] list_filtered [of P q d]
  by blast

theorem list_filtered_exactly_witness:
  "get_events sample_platform False list_db hall_query
     = (list_db, respond 200 (SelectedList [selected sample_event]))
   \<and> status_code (snd (get_events sample_platform False list_db [(''page'', ''1'')])) = 400"
proof -
  have v: "validate sample_platform queryValidationSchema (query_payload hall_query) = []"
    by code_simp
  have n: "newDate sample_platform ''2024-12-12'' = Some 1733961600000"
    by (simp add: sample_platform_def sample_date_def)
  have f: "filter (matches_given sample_platform hall_query) (events list_db) = [sample_event]"
    by (simp add: matches_given_def hall_query_def n list_db_def sample_event_def
        other_event_def)
  from list_filtered_exactly [where q = hall_query and P = sample_platform and d = list_db] v
  have a: "get_events sample_platform False list_db hall_query
     = (list_db, respond 200 (SelectedList [selected sample_event]))"
    by (simp add: f) (simp add: hall_query_def n)
  from list_filtered_exactly [where q = "[(''page'', ''1'')]" and P = sample_platform
      and fails = False and d = list_db]
  have b: "status_code (snd (get_events sample_platform False list_db [(''page'', ''1'')])) = 400"
    by simp
  from a b show ?thesis by simp
qed

text \<open>
  The claim as the specification states it, 200 with every stored event for a request
  with no query parameter, fails: the query validation answers 400.
\<close>

theorem list_without_parameters_counterexample:
  "get_events sample_platform False sample_db []
     = (sample_db, respond 400 (Validation ''Validation error'' [or_message]))
   \<and> get_events sample_platform False sample_db []
     \<noteq> (sample_db, respond 200 (SelectedList (map selected (events sample_db))))"
proof -
  have v: "validate sample_platform queryValidationSchema (query_payload [])
     = [Detail [] object_missing or_message]"
    by code_simp
  have "get_events sample_platform False sample_db []
     = (sample_db, respond 400 (Validation ''Validation error'' [or_message]))"
    by (simp add: get_events_def validateQuery_eq v)
  then show ?thesis by (simp add: respond_def)
qed

section \<open>Identifiers along a run\<close>

lemma new_Event_oid:
  "new_Event P i body = Inr e \<Longrightarrow> oid e = i \<and> version e = 0"
  by (auto simp: new_Event_def Let_def split: option.splits if_splits)

lemma post_ids_issued:
  assumes "ids_issued d"
  shows "ids_issued (fst (post_events P fails d body))
     \<and> next_oid d \<le> next_oid (fst (post_events P fails d body))"
proof (cases "new_Event P (next_oid d) body")
  case (Inl err)
  with assms show ?thesis
    by (auto simp: post_events_def save_def ids_issued_def list_all_iff Let_def
        split: option.splits if_splits)
next
  case (Inr e)
  from new_Event_oid [OF Inr] have "oid e = next_oid d" by simp
  with assms Inr show ?thesis
    by (auto simp: post_events_def save_def ids_issued_def list_all_iff Let_def
        split: option.splits if_splits)
qed

lemma route_ids_issued:
  assumes "ids_issued d"
  shows "ids_issued (fst (route P fails d r))
     \<and> next_oid d \<le> next_oid (fst (route P fails d r))"
proof (cases r)
  case (POST_events body)
  with post_ids_issued [OF assms] show ?thesis by simp
next
  case (GET_events q)
  with assms show ?thesis by (simp add: get_unchanged)
next
  case (PUT_events_id rid body)
  with put_ids_issued [OF assms, of P fails rid body] show ?thesis by simp
next
  case (DELETE_events_id rid)
  with delete_ids_issued [OF assms, of P fails rid] show ?thesis by simp
qed

lemma run_ids_issued:
  "ids_issued d \<Longrightarrow> ids_issued (run P d rs) \<and> next_oid d \<le> next_oid (run P d rs)"
proof (induction rs arbitrary: d)
  case Nil
  then show ?case by simp
next
  case (Cons x rs)
  obtain fails r where x: "x = (fails, r)" by (cases x)
  from route_ids_issued [OF Cons.prems, of P fails r]
  have step: "ids_issued (fst (route P fails d r))"
    and mono: "next_oid d \<le> next_oid (fst (route P fails d r))"
    by simp_all
  from Cons.IH [OF step] mono x show ?case by simp
qed

lemma reachable_ids_issued:
  "ids_issued (run P empty_db rs)"
proof -
  have "ids_issued empty_db" by (simp add: ids_issued_def empty_db_def)
  from run_ids_issued [OF this] show ?thesis by simp
qed

lemma route_keeps_versions:
  assumes "e' \<in> set (events (fst (route P fails d r)))"
  shows "version e' = 0 \<or> version e' \<in> set (map version (events d))"
proof (cases r)
  case (POST_events body)
  show ?thesis
  proof (cases "new_Event P (next_oid d) body")
    case (Inl err)
    with assms POST_events show ?thesis
      by (auto simp: post_events_def save_def Let_def split: option.splits if_splits)
  next
    case (Inr e)
    from new_Event_oid [OF Inr] have "version e = 0" by simp
    with assms POST_events Inr show ?thesis
      by (auto simp: post_events_def save_def Let_def split: option.splits if_splits)
  qed
next
  case (GET_events q)
  with assms show ?thesis by (simp add: get_unchanged)
next
  case (PUT_events_id rid body)
  from assms PUT_events_id
  have "version e' \<in> set (map version (events (fst (put_events_id P fails d rid body))))"
    by simp
  then show ?thesis by (simp only: put_keeps_versions) simp
next
  case (DELETE_events_id rid)
  with assms set_remove_first [of "\<lambda>e. oid e = the (castObjectId P rid)" "events d"]
  show ?thesis
    by (auto simp: delete_events_id_def findByIdAndDelete_def id_filter_def
        split: option.splits if_splits)
qed

lemma run_versions_zero:
  "list_all (\<lambda>e. version e = 0) (events d)
     \<Longrightarrow> list_all (\<lambda>e. version e = 0) (events (run P d rs))"
proof (induction rs arbitrary: d)
  case Nil
  then show ?case by simp
next
  case (Cons x rs)
  obtain fails r where x: "x = (fails, r)" by (cases x)
  have "list_all (\<lambda>e. version e = 0) (events (fst (route P fails d r)))"
    unfolding list_all_iff
  proof
    fix e'
    assume "e' \<in> set (events (fst (route P fails d r)))"
    from route_keeps_versions [OF this] Cons.prems show "version e' = 0"
      by (auto simp: list_all_iff)
  qed
  from Cons.IH [OF this] x show ?case by simp
qed

lemma reachable_versions_zero:
  "list_all (\<lambda>e. version e = 0) (events (run P empty_db rs))"
  by (rule run_versions_zero) (simp add: empty_db_def)

end
